theory Spec2Isabelle
  imports Complex_Main "HOL-Library.Sublist"
begin

section \<open>Exceptions\<close>

text \<open>
  Every Python exception the two modules can see is a value.  The library errors keep
  their Python class names and carry the message, the path or the offending key.

  Modelled from the spec: the class \<open>SensorException\<close> (module \<open>sensor.exception\<close>) is not
  among the sources.  The code constructs it as \<open>SensorException(e, sys)\<close> inside a
  handler that caught \<open>e\<close>; the spec calls it the one exception kind that wraps any
  failure and carries the original cause.  It is the constructor \<open>SensorException\<close>,
  whose argument is the wrapped exception.
\<close>

datatype exn =
    FileNotFoundError string
  | ParserError string
  | KeyError string
  | ValueError string
  | TypeError string
  | IOError string
  | NotFittedError string
  | ConfigurationError string
  | InvalidName string
  | SensorException exn

section \<open>The document-database client (\<open>sensor/configuration/mongo_db_connection.py\<close>)\<close>

text \<open>
  \<^verbatim>\<open>
  class MongoDBClient:
      client = None
      def __init__(self, database_name=DATABASE_NAME) -> None:
          try:
              if MongoDBClient.client is None:
                  mongo_db_url = "..."
                  MongoDBClient.client = pymongo.MongoClient(mongo_db_url, tlsCAFile=ca)
              self.client = MongoDBClient.client
              self.database = self.client[database_name]
              self.database_name = database_name
          except Exception as e:
              raise e
  \<close>
  The driver is outside the repository.  A call of \<open>pymongo.MongoClient\<close> with the fixed
  URL and certificate file either raises or returns a new client object; the model
  names a client object by the number of the call that created it, and takes from the
  environment whether the \<open>n\<close>-th call raises.  Indexing a client by a database name
  gives a handle made of the client and the name, unless the driver rejects the name.
  The process state holds the class attribute \<open>MongoDBClient.client\<close>, the number of
  calls made to the driver so far and the clients created so far.
\<close>

type_synonym MongoClient = nat

record Database =
  db_client :: MongoClient
  db_name :: string

record mongo_env =
  DATABASE_NAME :: string
  MongoClient_raises :: "nat \<Rightarrow> exn option"
  Database_raises :: "string \<Rightarrow> exn option"

record process =
  MongoDBClient_client :: "MongoClient option"
  driver_calls :: nat
  created :: "MongoClient list"

record MongoDBClient =
  client :: MongoClient
  database :: Database
  database_name :: string

definition process_start :: process where
  "process_start = \<lparr>MongoDBClient_client = None, driver_calls = 0, created = []\<rparr>"

definition pymongo_MongoClient :: "mongo_env \<Rightarrow> process \<Rightarrow> (exn + MongoClient) \<times> process" where
  "pymongo_MongoClient env p =
     (case MongoClient_raises env (driver_calls p) of
        Some e \<Rightarrow> (Inl e, p\<lparr>driver_calls := Suc (driver_calls p)\<rparr>)
      | None \<Rightarrow> (Inr (driver_calls p),
                 p\<lparr>driver_calls := Suc (driver_calls p),
                   created := created p @ [driver_calls p]\<rparr>))"

definition getitem_client :: "mongo_env \<Rightarrow> MongoClient option \<Rightarrow> string \<Rightarrow> exn + Database" where
  "getitem_client env c name =
     (case c of
        None \<Rightarrow> Inl (TypeError ''NoneType object is not subscriptable'')
      | Some cl \<Rightarrow>
          (case Database_raises env name of
             Some e \<Rightarrow> Inl e
           | None \<Rightarrow> Inr \<lparr>db_client = cl, db_name = name\<rparr>))"

text \<open>
  The constructor.  The argument is \<open>None\<close> when the caller leaves \<open>database_name\<close> out,
  so that the default \<open>DATABASE_NAME\<close> applies.  The handler re-raises what it caught.
\<close>

definition MongoDBClient_init ::
  "mongo_env \<Rightarrow> string option \<Rightarrow> process \<Rightarrow> (exn + MongoDBClient) \<times> process" where
  "MongoDBClient_init env arg p =
     (let database_name = (case arg of None \<Rightarrow> DATABASE_NAME env | Some n \<Rightarrow> n);
          (r, p1) = (if MongoDBClient_client p = None
                     then (case pymongo_MongoClient env p of
                             (Inl e, p') \<Rightarrow> (Inl e, p')
                           | (Inr c, p') \<Rightarrow> (Inr (), p'\<lparr>MongoDBClient_client := Some c\<rparr>))
                     else (Inr (), p))
      in case r of
           Inl e \<Rightarrow> (Inl e, p1)
         | Inr _ \<Rightarrow>
             (case getitem_client env (MongoDBClient_client p1) database_name of
                Inl e \<Rightarrow> (Inl e, p1)
              | Inr db \<Rightarrow>
                  (Inr \<lparr>client = the (MongoDBClient_client p1), database = db,
                        database_name = database_name\<rparr>, p1)))"

text \<open>A process constructs clients one after the other; each result is kept.\<close>

fun constructions ::
  "mongo_env \<Rightarrow> string option list \<Rightarrow> process \<Rightarrow> (exn + MongoDBClient) list \<times> process" where
  "constructions env [] p = ([], p)"
| "constructions env (a # as) p =
     (let (r, p1) = MongoDBClient_init env a p;
          (rs, p2) = constructions env as p1
      in (r # rs, p2))"

definition singleton_inv :: "process \<Rightarrow> bool" where
  "singleton_inv p =
     (case MongoDBClient_client p of
        None \<Rightarrow> created p = []
      | Some c \<Rightarrow> created p = [c])"

definition mongo_env_example :: mongo_env where
  "mongo_env_example =
     \<lparr>DATABASE_NAME = ''sensor'',
      MongoClient_raises = (\<lambda>n. None),
      Database_raises = (\<lambda>name. if name = [] then Some (InvalidName name) else None)\<rparr>"

section \<open>The transformation stage (\<open>sensor/components/data_transformation.py\<close>)\<close>

subsection \<open>Tables, arrays and fitted objects\<close>

text \<open>
  A value of a table is missing (\<open>NaN\<close>), a number or a text.  A \<open>DataFrame\<close> has its
  column labels and its rows; a numeric array and a label vector are lists of values.
\<close>

datatype cell = NaN | Num real | Str string

record DataFrame =
  columns :: "string list"
  rows :: "cell list list"

text \<open>
  \<open>SimpleImputer(strategy='constant', fill_value=0)\<close> is described by its fill value.
  A \<open>Pipeline\<close> of the two steps holds the imputer and, once fitted, the statistics of
  the scaler; \<open>'st\<close> is the type of these statistics, which belong to the library.
\<close>

record SimpleImputer =
  fill_value :: real

record 'st Pipeline =
  Imputer :: SimpleImputer
  RobustScaler :: "'st option"

subsection \<open>The world: files and the log\<close>

datatype 'st content =
    CsvFile DataFrame
  | NpyFile "cell list list"
  | PklFile "'st Pipeline"

record 'st world =
  files :: "string \<rightharpoonup> 'st content"
  log :: "string list"

text \<open>
  The entities of the pipeline.
  Modelled from the spec: \<open>DataValidationArtifact\<close>, \<open>DataTransformationConfig\<close> and
  \<open>DataTransformationArtifact\<close> (modules \<open>sensor.entity\<close>) are not among the sources; the
  records have the fields the code reads and the three fields it passes to the
  constructor of the artifact, "a record of three file paths".
\<close>

record DataValidationArtifact =
  valid_train_file_path :: string
  valid_test_file_path :: string

record DataTransformationConfig =
  transformed_train_file_path :: string
  transformed_test_file_path :: string
  transformed_object_file_path :: string

record DataTransformationArtifact =
  transformed_object_file_path :: string
  transformed_train_file_path :: string
  transformed_test_file_path :: string

record DataTransformation =
  data_validation_artifact :: DataValidationArtifact
  data_transformation_config :: DataTransformationConfig

text \<open>
  What the stage takes from outside the two source files:
  \<^item> the constant \<open>TARGET_COLUMN\<close> and the dictionary \<open>TargetValueMapping().to_dict()\<close>,
    whose keys are label tokens and whose values are numeric codes;
  \<^item> the library's robust scaler, as the function that fits its statistics on a matrix
    and the function that applies fitted statistics to a matrix; either may raise;
  \<^item> the library's resampler \<open>SMOTETomek(sampling_strategy='minority').fit_resample\<close>;
    it draws random numbers, so its result also depends on the number of the call
    (\<open>0\<close> for the train split, \<open>1\<close> for the test split);
  \<^item> which paths can be written, and how an artifact is printed in the log.
\<close>

record 'st env =
  TARGET_COLUMN :: string
  TargetValueMapping_to_dict :: "(string \<times> real) list"
  scaler_fit :: "cell list list \<Rightarrow> exn + 'st"
  scaler_transform :: "'st \<Rightarrow> cell list list \<Rightarrow> exn + cell list list"
  fit_resample :: "nat \<Rightarrow> cell list list \<Rightarrow> cell list \<Rightarrow> exn + (cell list list \<times> cell list)"
  can_write :: "string \<Rightarrow> bool"
  repr_artifact :: "DataTransformationArtifact \<Rightarrow> string"

subsection \<open>Actions: state passing with exceptions\<close>

type_synonym ('a, 'st) action = "'st world \<Rightarrow> (exn + 'a) \<times> 'st world"

definition return_value :: "'a \<Rightarrow> ('a, 'st) action" where
  "return_value a w = (Inr a, w)"

definition raise :: "exn \<Rightarrow> ('a, 'st) action" where
  "raise e w = (Inl e, w)"

definition lift :: "exn + 'a \<Rightarrow> ('a, 'st) action" where
  "lift r w = (r, w)"

definition and_then :: "('a, 'st) action \<Rightarrow> ('a \<Rightarrow> ('b, 'st) action) \<Rightarrow> ('b, 'st) action" where
  "and_then m f w =
     (case m w of
        (Inl e, w') \<Rightarrow> (Inl e, w')
      | (Inr a, w') \<Rightarrow> f a w')"

definition try_except :: "('a, 'st) action \<Rightarrow> (exn \<Rightarrow> ('a, 'st) action) \<Rightarrow> ('a, 'st) action" where
  "try_except m h w =
     (case m w of
        (Inl e, w') \<Rightarrow> h e w'
      | (Inr a, w') \<Rightarrow> (Inr a, w'))"

definition logging_info :: "string \<Rightarrow> (unit, 'st) action" where
  "logging_info msg w = (Inr (), w\<lparr>log := log w @ [msg]\<rparr>)"

subsection \<open>Library operations on tables\<close>

text \<open>
  \<open>pd.read_csv(path)\<close>: the file must exist and hold a table; parsing itself is not
  modelled, the file holds the table that parsing gives.
\<close>

definition read_csv :: "string \<Rightarrow> (DataFrame, 'st) action" where
  "read_csv file_path w =
     (case files w file_path of
        None \<Rightarrow> (Inl (FileNotFoundError file_path), w)
      | Some (CsvFile df) \<Rightarrow> (Inr df, w)
      | Some _ \<Rightarrow> (Inl (ParserError file_path), w))"

text \<open>\<open>df.drop(columns=[c], axis=1)\<close>: a label that is no column is a \<open>KeyError\<close>.\<close>

definition drop_columns :: "string \<Rightarrow> DataFrame \<Rightarrow> exn + DataFrame" where
  "drop_columns c df =
     (if c \<in> set (columns df)
      then Inr \<lparr>columns = filter (\<lambda>n. n \<noteq> c) (columns df),
                rows = map (\<lambda>r. map snd (filter (\<lambda>(n, v). n \<noteq> c) (zip (columns df) r)))
                           (rows df)\<rparr>
      else Inl (KeyError c))"

text \<open>\<open>df[c]\<close>: the values of the column, one for each row.\<close>

definition getitem_column :: "string \<Rightarrow> DataFrame \<Rightarrow> exn + cell list" where
  "getitem_column c df =
     (if c \<in> set (columns df)
      then Inr (map (\<lambda>r. case map_of (zip (columns df) r) c of Some v \<Rightarrow> v | None \<Rightarrow> NaN)
                    (rows df))
      else Inl (KeyError c))"

text \<open>
  \<open>series.replace(d)\<close> for a dictionary \<open>d\<close>: a value that is a key of \<open>d\<close> becomes the
  value stored for it; every other value stays as it is.
\<close>

definition replace_value :: "(string \<times> real) list \<Rightarrow> cell \<Rightarrow> cell" where
  "replace_value d v =
     (case v of
        Str s \<Rightarrow> (case map_of d s of Some code \<Rightarrow> Num code | None \<Rightarrow> Str s)
      | _ \<Rightarrow> v)"

definition replace_dict :: "(string \<times> real) list \<Rightarrow> cell list \<Rightarrow> cell list" where
  "replace_dict d series = map (replace_value d) series"

text \<open>\<open>np.c_[X, np.array(y)]\<close>: the vector becomes the last column; the lengths must agree.\<close>

definition np_c :: "cell list list \<Rightarrow> cell list \<Rightarrow> exn + cell list list" where
  "np_c X y =
     (if length X = length y
      then Inr (map (\<lambda>(r, l). r @ [l]) (zip X y))
      else Inl (ValueError ''all the input array dimensions except for the concatenation axis must match exactly''))"

subsection \<open>The preprocessing pipeline\<close>

text \<open>
  The imputer of the source fills missing values with its constant ("replace missing
  values with zero"); it leaves every other value alone.
\<close>

definition impute_value :: "real \<Rightarrow> cell \<Rightarrow> cell" where
  "impute_value c v = (case v of NaN \<Rightarrow> Num c | _ \<Rightarrow> v)"

definition imputer_transform :: "SimpleImputer \<Rightarrow> cell list list \<Rightarrow> cell list list" where
  "imputer_transform imp X = map (map (impute_value (fill_value imp))) X"

text \<open>
  \<open>Pipeline.fit\<close> runs the imputer on the input and fits the scaler on the result;
  \<open>Pipeline.transform\<close> runs the imputer, then the fitted scaler.
\<close>

definition pipeline_fit :: "'st env \<Rightarrow> 'st Pipeline \<Rightarrow> cell list list \<Rightarrow> exn + 'st Pipeline" where
  "pipeline_fit env p X =
     (case scaler_fit env (imputer_transform (Imputer p) X) of
        Inl e \<Rightarrow> Inl e
      | Inr s \<Rightarrow> Inr (p\<lparr>RobustScaler := Some s\<rparr>))"

definition pipeline_transform :: "'st env \<Rightarrow> 'st Pipeline \<Rightarrow> cell list list \<Rightarrow> exn + cell list list" where
  "pipeline_transform env p X =
     (case RobustScaler p of
        None \<Rightarrow> Inl (NotFittedError ''RobustScaler'')
      | Some s \<Rightarrow> scaler_transform env s (imputer_transform (Imputer p) X))"

text \<open>The scaler on its own, fitted on a matrix and applied to a matrix.\<close>

definition scaler_fit_transform :: "'st env \<Rightarrow> cell list list \<Rightarrow> cell list list \<Rightarrow> exn + cell list list" where
  "scaler_fit_transform env X_fit X =
     (case scaler_fit env X_fit of
        Inl e \<Rightarrow> Inl e
      | Inr s \<Rightarrow> scaler_transform env s X)"

definition pipeline_fit_transform ::
  "'st env \<Rightarrow> 'st Pipeline \<Rightarrow> cell list list \<Rightarrow> cell list list \<Rightarrow> exn + cell list list" where
  "pipeline_fit_transform env p X_fit X =
     (case pipeline_fit env p X_fit of
        Inl e \<Rightarrow> Inl e
      | Inr fitted \<Rightarrow> pipeline_transform env fitted X)"

definition no_missing :: "cell list list \<Rightarrow> bool" where
  "no_missing X = (\<forall>r \<in> set X. \<forall>v \<in> set r. v \<noteq> NaN)"

subsection \<open>Saving\<close>

text \<open>
  Modelled from the spec: \<open>save_numpy_array_data\<close> and \<open>save_object\<close> (module
  \<open>sensor.utils.main_utils\<close>) are not among the sources.  The spec has them "persist"
  the train array, the test array and the fitted preprocessor at the configured
  paths, and names \<open>IOError\<close> for a file that cannot be written.
\<close>

definition save_numpy_array_data :: "'st env \<Rightarrow> string \<Rightarrow> cell list list \<Rightarrow> (unit, 'st) action" where
  "save_numpy_array_data env file_path array w =
     (if can_write env file_path
      then (Inr (), w\<lparr>files := (files w)(file_path \<mapsto> NpyFile array)\<rparr>)
      else (Inl (IOError file_path), w))"

definition save_object :: "'st env \<Rightarrow> string \<Rightarrow> 'st Pipeline \<Rightarrow> (unit, 'st) action" where
  "save_object env file_path obj w =
     (if can_write env file_path
      then (Inr (), w\<lparr>files := (files w)(file_path \<mapsto> PklFile obj)\<rparr>)
      else (Inl (IOError file_path), w))"

subsection \<open>The class \<open>DataTransformation\<close>\<close>

definition DataTransformation_init ::
  "DataValidationArtifact \<Rightarrow> DataTransformationConfig \<Rightarrow> exn + DataTransformation" where
  "DataTransformation_init validation_artifact transformation_config =
     Inr \<lparr>data_validation_artifact = validation_artifact,
          data_transformation_config = transformation_config\<rparr>"

definition read_data :: "string \<Rightarrow> (DataFrame, 'st) action" where
  "read_data file_path =
     try_except (read_csv file_path) (\<lambda>e. raise (SensorException e))"

definition get_data_transformer_object :: "exn + 'st Pipeline" where
  "get_data_transformer_object =
     (let robust_scaler = None;
          simple_imputer = \<lparr>fill_value = 0\<rparr>
      in Inr \<lparr>Imputer = simple_imputer, RobustScaler = robust_scaler\<rparr>)"

text \<open>The body of the \<open>try\<close> block of \<open>initiate_data_transformation\<close>, statement by statement.\<close>

definition initiate_data_transformation_body ::
  "'st env \<Rightarrow> DataTransformation \<Rightarrow> (DataTransformationArtifact, 'st) action" where
  "initiate_data_transformation_body env self =
     and_then (logging_info ''Data transformation Started '') (\<lambda>_.
     and_then (read_data (valid_train_file_path (data_validation_artifact self))) (\<lambda>train_df.
     and_then (read_data (valid_test_file_path (data_validation_artifact self))) (\<lambda>test_df.
     and_then (lift get_data_transformer_object) (\<lambda>preprocessor.
     and_then (lift (drop_columns (TARGET_COLUMN env) train_df)) (\<lambda>input_feature_train_df.
     and_then (logging_info (''For Train the Target column '' @ TARGET_COLUMN env @ '' is removed'')) (\<lambda>_.
     and_then (lift (getitem_column (TARGET_COLUMN env) train_df)) (\<lambda>target_feature_train_df0.
     and_then (return_value (replace_dict (TargetValueMapping_to_dict env) target_feature_train_df0)) (\<lambda>target_feature_train_df.
     and_then (logging_info ''The target columnsof Train Dataset is converted to numeric succesfully'') (\<lambda>_.
     and_then (lift (drop_columns (TARGET_COLUMN env) test_df)) (\<lambda>input_feature_test_df.
     and_then (logging_info (''For Test the Target column '' @ TARGET_COLUMN env @ '' is removed'')) (\<lambda>_.
     and_then (lift (getitem_column (TARGET_COLUMN env) test_df)) (\<lambda>target_feature_test_df0.
     and_then (return_value (replace_dict (TargetValueMapping_to_dict env) target_feature_test_df0)) (\<lambda>target_feature_test_df.
     and_then (logging_info ''The target columns of Test Dataset is converted to numeric succesfully'') (\<lambda>_.
     and_then (lift (pipeline_fit env preprocessor (rows input_feature_train_df))) (\<lambda>preprocessor_object.
     and_then (lift (pipeline_transform env preprocessor_object (rows input_feature_train_df))) (\<lambda>transformed_input_train_feature.
     and_then (lift (pipeline_transform env preprocessor_object (rows input_feature_test_df))) (\<lambda>transformed_input_test_feature.
     and_then (logging_info ''Succesfully Completed Preprocessing Steps'') (\<lambda>_.
     and_then (logging_info ''Balancing the Dataset Using SMOTETomek method has started'') (\<lambda>_.
     and_then (lift (fit_resample env 0 transformed_input_train_feature target_feature_train_df)) (\<lambda>(input_feature_train_final, target_feature_train_final).
     and_then (lift (fit_resample env 1 transformed_input_test_feature target_feature_test_df)) (\<lambda>(input_feature_test_final, target_feature_test_final).
     and_then (logging_info ''Balancing the Dataset Using SMOTETomek method has Completed'') (\<lambda>_.
     and_then (lift (np_c input_feature_train_final target_feature_train_final)) (\<lambda>train_arr.
     and_then (lift (np_c input_feature_test_final target_feature_test_final)) (\<lambda>test_arr.
     and_then (logging_info '' Starting the conversion of data to numpy array'') (\<lambda>_.
     and_then (save_numpy_array_data env (DataTransformationConfig.transformed_train_file_path (data_transformation_config self)) train_arr) (\<lambda>_.
     and_then (save_numpy_array_data env (DataTransformationConfig.transformed_test_file_path (data_transformation_config self)) test_arr) (\<lambda>_.
     and_then (save_object env (DataTransformationConfig.transformed_object_file_path (data_transformation_config self)) preprocessor_object) (\<lambda>_.
     and_then (logging_info '' Completed the conversion of data to numpy array'') (\<lambda>_.
     and_then (return_value
        \<lparr>transformed_object_file_path =
           DataTransformationConfig.transformed_object_file_path (data_transformation_config self),
         transformed_train_file_path =
           DataTransformationConfig.transformed_train_file_path (data_transformation_config self),
         transformed_test_file_path =
           DataTransformationConfig.transformed_test_file_path (data_transformation_config self)\<rparr>) (\<lambda>data_transformation_artifact.
     and_then (logging_info (''Data transformation artifact: '' @ repr_artifact env data_transformation_artifact)) (\<lambda>_.
     and_then (logging_info ''Data transformation Succesfully Completed '') (\<lambda>_.
     return_value data_transformation_artifact))))))))))))))))))))))))))))))))"

definition initiate_data_transformation ::
  "'st env \<Rightarrow> DataTransformation \<Rightarrow> (DataTransformationArtifact, 'st) action" where
  "initiate_data_transformation env self =
     try_except (initiate_data_transformation_body env self) (\<lambda>e. raise (SensorException e))"

subsection \<open>The log of a complete run\<close>

text \<open>The artifact the stage builds from its configuration, and the lines a run logs, in order.\<close>

definition artifact_of_config :: "DataTransformationConfig \<Rightarrow> DataTransformationArtifact" where
  "artifact_of_config cfg =
     \<lparr>transformed_object_file_path = DataTransformationConfig.transformed_object_file_path cfg,
      transformed_train_file_path = DataTransformationConfig.transformed_train_file_path cfg,
      transformed_test_file_path = DataTransformationConfig.transformed_test_file_path cfg\<rparr>"






text \<open>
  Every operation of a run succeeds in a world when both tables can be read, both have
  the label column, the pipeline can be fitted on the train features and applied to
  the features of both tables, the resampler and the concatenation succeed on both
  splits, and the three output paths can be written.
\<close>

definition every_step_succeeds :: "'st env \<Rightarrow> DataTransformation \<Rightarrow> 'st world \<Rightarrow> bool" where
  "every_step_succeeds env self w =
     (\<exists>train_df test_df Xtr Xte ytr yte p Ttr Tte Btr ltr Bte lte Atr Ate.
        files w (valid_train_file_path (data_validation_artifact self)) = Some (CsvFile train_df) \<and>
        files w (valid_test_file_path (data_validation_artifact self)) = Some (CsvFile test_df) \<and>
        drop_columns (TARGET_COLUMN env) train_df = Inr Xtr \<and>
        getitem_column (TARGET_COLUMN env) train_df = Inr ytr \<and>
        drop_columns (TARGET_COLUMN env) test_df = Inr Xte \<and>
        getitem_column (TARGET_COLUMN env) test_df = Inr yte \<and>
        pipeline_fit env \<lparr>Imputer = \<lparr>fill_value = 0\<rparr>, RobustScaler = None\<rparr> (rows Xtr) = Inr p \<and>
        pipeline_transform env p (rows Xtr) = Inr Ttr \<and>
        pipeline_transform env p (rows Xte) = Inr Tte \<and>
        fit_resample env 0 Ttr (replace_dict (TargetValueMapping_to_dict env) ytr) = Inr (Btr, ltr) \<and>
        fit_resample env 1 Tte (replace_dict (TargetValueMapping_to_dict env) yte) = Inr (Bte, lte) \<and>
        np_c Btr ltr = Inr Atr \<and>
        np_c Bte lte = Inr Ate \<and>
        can_write env (DataTransformationConfig.transformed_train_file_path (data_transformation_config self)) \<and>
        can_write env (DataTransformationConfig.transformed_test_file_path (data_transformation_config self)) \<and>
        can_write env (DataTransformationConfig.transformed_object_file_path (data_transformation_config self)))"

subsection \<open>An example environment\<close>

text \<open>
  A small world for concrete runs.  One feature column with the values \<open>-4, -2, 2, 4\<close>
  has median \<open>0\<close> and interquartile range \<open>5\<close>, which is what the example scaler
  returns as its statistics for this table (it knows no other table); its transform
  subtracts the centre and divides by the scale.  The two classes of the example are
  of equal size and well separated, a case in which the resampler adds nothing and
  removes nothing; the example resampler returns its input.
\<close>

definition example_features :: "cell list list" where
  "example_features = [[Num (- 4)], [Num (- 2)], [Num 2], [Num 4]]"

definition env_example :: "(real \<times> real) env" where
  "env_example =
     \<lparr>TARGET_COLUMN = ''class'',
      TargetValueMapping_to_dict = [(''neg'', 0), (''pos'', 1)],
      scaler_fit = (\<lambda>X. if X = example_features then Inr (0, 5)
                        else Inl (ValueError ''no statistics for this table'')),
      scaler_transform =
        (\<lambda>st X. Inr (map (map (\<lambda>v. case v of Num x \<Rightarrow> Num ((x - fst st) / snd st) | _ \<Rightarrow> v)) X)),
      fit_resample = (\<lambda>n X y. Inr (X, y)),
      can_write = (\<lambda>p. p \<noteq> []),
      repr_artifact = (\<lambda>a. DataTransformationArtifact.transformed_object_file_path a)\<rparr>"

definition self_example :: DataTransformation where
  "self_example =
     \<lparr>data_validation_artifact =
        \<lparr>valid_train_file_path = ''train.csv'', valid_test_file_path = ''test.csv''\<rparr>,
      data_transformation_config =
        \<lparr>DataTransformationConfig.transformed_train_file_path = ''train.npy'',
         DataTransformationConfig.transformed_test_file_path = ''test.npy'',
         DataTransformationConfig.transformed_object_file_path = ''preprocessing.pkl''\<rparr>\<rparr>"

definition table_example :: "string \<Rightarrow> string \<Rightarrow> DataFrame" where
  "table_example l0 l1 =
     \<lparr>columns = [''sensor_1'', ''class''],
      rows = [[Num (- 4), Str l0], [Num (- 2), Str l0], [Num 2, Str l1], [Num 4, Str l1]]\<rparr>"

text \<open>Both tables present and labelled with the two known tokens.\<close>

definition world_example :: "(real \<times> real) world" where
  "world_example =
     \<lparr>files = [''train.csv'' \<mapsto> CsvFile (table_example ''neg'' ''pos''),
               ''test.csv'' \<mapsto> CsvFile (table_example ''neg'' ''pos'')],
      log = []\<rparr>"

text \<open>The test table is missing.\<close>

definition world_without_test :: "(real \<times> real) world" where
  "world_without_test =
     \<lparr>files = [''train.csv'' \<mapsto> CsvFile (table_example ''neg'' ''pos'')], log = []\<rparr>"

text \<open>Both tables carry the labels \<open>a\<close> and \<open>b\<close>, which are no keys of the dictionary.\<close>

definition world_unmapped :: "(real \<times> real) world" where
  "world_unmapped =
     \<lparr>files = [''train.csv'' \<mapsto> CsvFile (table_example ''a'' ''b''),
               ''test.csv'' \<mapsto> CsvFile (table_example ''a'' ''b'')],
      log = []\<rparr>"

text \<open>The same train table with another test table.\<close>

definition world_other_test :: "(real \<times> real) world" where
  "world_other_test =
     \<lparr>files = [''train.csv'' \<mapsto> CsvFile (table_example ''neg'' ''pos''),
               ''test.csv'' \<mapsto> CsvFile \<lparr>columns = [''sensor_1'', ''class''],
                                          rows = [[Num 1, Str ''neg''], [NaN, Str ''pos'']]\<rparr>],
      log = []\<rparr>"

section \<open>Properties of the document-database client\<close>

lemma MongoDBClient_init_process:
  "MongoDBClient_init env arg p = (r, p') \<Longrightarrow>
   (case MongoDBClient_client p of
      Some c \<Rightarrow> p' = p
    | None \<Rightarrow>
        (case MongoClient_raises env (driver_calls p) of
           Some e \<Rightarrow> r = Inl e \<and> p' = p\<lparr>driver_calls := Suc (driver_calls p)\<rparr>
         | None \<Rightarrow> p' = p\<lparr>driver_calls := Suc (driver_calls p),
                          created := created p @ [driver_calls p],
                          MongoDBClient_client := Some (driver_calls p)\<rparr>))"
  by (auto simp: MongoDBClient_init_def pymongo_MongoClient_def getitem_client_def Let_def
      split: option.splits sum.splits prod.splits if_splits)

lemma MongoDBClient_init_inv:
  "singleton_inv p \<Longrightarrow> MongoDBClient_init env arg p = (r, p') \<Longrightarrow> singleton_inv p'"
  by (drule MongoDBClient_init_process) (auto simp: singleton_inv_def split: option.splits)

lemma MongoDBClient_init_instance:
  "MongoDBClient_init env arg p = (Inr a, p') \<Longrightarrow>
   MongoDBClient_client p' = Some (client a) \<and>
   database a = \<lparr>db_client = client a,
                  db_name = (case arg of None \<Rightarrow> DATABASE_NAME env | Some n \<Rightarrow> n)\<rparr> \<and>
   database_name a = (case arg of None \<Rightarrow> DATABASE_NAME env | Some n \<Rightarrow> n)"
  by (auto simp: MongoDBClient_init_def pymongo_MongoClient_def getitem_client_def Let_def
      split: option.splits sum.splits prod.splits if_splits)

lemma MongoDBClient_init_reuses:
  "MongoDBClient_client p = Some c \<Longrightarrow> MongoDBClient_init env arg p = (r, p') \<Longrightarrow> p' = p"
  by (drule MongoDBClient_init_process) auto

lemma constructions_inv:
  "singleton_inv p \<Longrightarrow> constructions env as p = (rs, p') \<Longrightarrow>
   singleton_inv p' \<and> (\<forall>a. Inr a \<in> set rs \<longrightarrow> MongoDBClient_client p' = Some (client a))
   \<and> (\<forall>c. MongoDBClient_client p = Some c \<longrightarrow> p' = p)"
proof (induction as arbitrary: p rs p')
  case Nil
  then show ?case by simp
next
  case (Cons a as)
  obtain r p1 where i: "MongoDBClient_init env a p = (r, p1)" by (cases "MongoDBClient_init env a p")
  obtain rs1 p2 where c: "constructions env as p1 = (rs1, p2)" by (cases "constructions env as p1")
  from Cons.prems i c have eq: "rs = r # rs1" "p' = p2" by auto
  have inv1: "singleton_inv p1" using MongoDBClient_init_inv [OF Cons.prems(1) i] .
  from Cons.IH [OF inv1 c] have ih: "singleton_inv p2"
    "\<forall>a. Inr a \<in> set rs1 \<longrightarrow> MongoDBClient_client p2 = Some (client a)"
    "\<forall>c. MongoDBClient_client p1 = Some c \<longrightarrow> p2 = p1" by auto
  have "\<forall>x. r = Inr x \<longrightarrow> MongoDBClient_client p2 = Some (client x)"
    using MongoDBClient_init_instance i ih(3) by fastforce
  moreover have "\<forall>c. MongoDBClient_client p = Some c \<longrightarrow> p2 = p"
    using MongoDBClient_init_reuses i ih(3) by fastforce
  ultimately show ?case using ih eq by auto
qed


text \<open>
  Claim C9.  However many clients a process constructs, and whatever the driver does,
  at most one driver connection is ever created; every constructed instance holds
  that one connection; and when the driver's first call succeeds, the first
  construction creates the connection and the later constructions leave the process
  state as the first one left it (they reuse the connection and never call the driver).
\<close>

theorem connection_initialized_at_most_once:
  assumes "constructions env as process_start = (rs, p')"
  shows "length (created p') \<le> 1 \<and>
         (\<forall>a. Inr a \<in> set rs \<longrightarrow> created p' = [client a]) \<and>
         (as \<noteq> [] \<and> MongoClient_raises env 0 = None \<longrightarrow>
            created p' = [0] \<and> p' = snd (MongoDBClient_init env (hd as) process_start))"
proof -
  have inv0: "singleton_inv process_start"
    by (simp add: singleton_inv_def process_start_def)
  from constructions_inv [OF inv0 assms]
  have inv: "singleton_inv p'"
    and inst: "\<forall>a. Inr a \<in> set rs \<longrightarrow> MongoDBClient_client p' = Some (client a)" by auto
  have one: "length (created p') \<le> 1"
    using inv by (auto simp: singleton_inv_def split: option.splits)
  have share: "\<forall>a. Inr a \<in> set rs \<longrightarrow> created p' = [client a]"
    using inv inst by (auto simp: singleton_inv_def)
  have first: "created p' = [0] \<and> p' = snd (MongoDBClient_init env (hd as) process_start)"
    if ne: "as \<noteq> []" and ok: "MongoClient_raises env 0 = None"
  proof -
    obtain a bs where as: "as = a # bs" using ne by (cases as) auto
    obtain r p1 where i: "MongoDBClient_init env a process_start = (r, p1)"
      by (cases "MongoDBClient_init env a process_start")
    obtain rs1 p2 where c: "constructions env bs p1 = (rs1, p2)"
      by (cases "constructions env bs p1")
    have p2: "p' = p2" using assms as i c by simp
    have p1: "MongoDBClient_client p1 = Some 0 \<and> created p1 = [0]"
      using MongoDBClient_init_process [OF i] ok by (simp add: process_start_def)
    have inv1: "singleton_inv p1" using MongoDBClient_init_inv [OF inv0 i] .
    have "p2 = p1" using constructions_inv [OF inv1 c] p1 by auto
    then show ?thesis using p1 p2 as i by simp
  qed
  show ?thesis using one share first by blast
qed

theorem connection_initialized_at_most_once_witness:
  "constructions mongo_env_example [None, Some ''audit'', None] process_start =
     ([Inr \<lparr>client = 0, database = \<lparr>db_client = 0, db_name = ''sensor''\<rparr>,
            database_name = ''sensor''\<rparr>,
       Inr \<lparr>client = 0, database = \<lparr>db_client = 0, db_name = ''audit''\<rparr>,
            database_name = ''audit''\<rparr>,
       Inr \<lparr>client = 0, database = \<lparr>db_client = 0, db_name = ''sensor''\<rparr>,
            database_name = ''sensor''\<rparr>],
      \<lparr>MongoDBClient_client = Some 0, driver_calls = 1, created = [0]\<rparr>) \<and>
   length (created \<lparr>MongoDBClient_client = Some 0, driver_calls = 1, created = [0]\<rparr>) \<le> 1"
proof -
  have h: "constructions mongo_env_example [None, Some ''audit'', None] process_start =
     ([Inr \<lparr>client = 0, database = \<lparr>db_client = 0, db_name = ''sensor''\<rparr>,
            database_name = ''sensor''\<rparr>,
       Inr \<lparr>client = 0, database = \<lparr>db_client = 0, db_name = ''audit''\<rparr>,
            database_name = ''audit''\<rparr>,
       Inr \<lparr>client = 0, database = \<lparr>db_client = 0, db_name = ''sensor''\<rparr>,
            database_name = ''sensor''\<rparr>],
      \<lparr>MongoDBClient_client = Some 0, driver_calls = 1, created = [0]\<rparr>)"
    by (simp add: mongo_env_example_def process_start_def MongoDBClient_init_def
        pymongo_MongoClient_def getitem_client_def Let_def)
  show ?thesis using connection_initialized_at_most_once [OF h] h by simp
qed

text \<open>
  Claim C10.  After a successful construction, a second construction, whatever its
  database name, leaves the process state untouched (no driver call, the class
  attribute still the first connection); when it succeeds, its instance holds the
  first connection, and only its database handle and stored name follow its argument.
\<close>

theorem second_construction_reuses_client:
  assumes "MongoDBClient_init env arg1 p0 = (Inr first, p1)"
      and "MongoDBClient_init env arg2 p1 = (r, p2)"
  shows "p2 = p1 \<and> MongoDBClient_client p2 = Some (client first) \<and>
         (\<forall>second. r = Inr second \<longrightarrow>
            client second = client first \<and>
            database second =
              \<lparr>db_client = client first,
               db_name = (case arg2 of None \<Rightarrow> DATABASE_NAME env | Some n \<Rightarrow> n)\<rparr> \<and>
            database_name second = (case arg2 of None \<Rightarrow> DATABASE_NAME env | Some n \<Rightarrow> n))"
proof -
  have c1: "MongoDBClient_client p1 = Some (client first)"
    using MongoDBClient_init_instance [OF assms(1)] by simp
  have same: "p2 = p1" using MongoDBClient_init_reuses [OF c1 assms(2)] .
  have "client second = client first \<and>
        database second = \<lparr>db_client = client first,
               db_name = (case arg2 of None \<Rightarrow> DATABASE_NAME env | Some n \<Rightarrow> n)\<rparr> \<and>
        database_name second = (case arg2 of None \<Rightarrow> DATABASE_NAME env | Some n \<Rightarrow> n)"
    if "r = Inr second" for second
    using MongoDBClient_init_instance [of env arg2 p1 second p2] assms(2) that c1 same by simp
  then show ?thesis using c1 same by blast
qed

theorem second_construction_reuses_client_witness:
  "MongoDBClient_init mongo_env_example (Some ''sensor'') process_start =
     (Inr \<lparr>client = 0, database = \<lparr>db_client = 0, db_name = ''sensor''\<rparr>,
           database_name = ''sensor''\<rparr>,
      \<lparr>MongoDBClient_client = Some 0, driver_calls = 1, created = [0]\<rparr>) \<and>
   MongoDBClient_init mongo_env_example (Some ''audit'')
       \<lparr>MongoDBClient_client = Some 0, driver_calls = 1, created = [0]\<rparr> =
     (Inr \<lparr>client = 0, database = \<lparr>db_client = 0, db_name = ''audit''\<rparr>,
           database_name = ''audit''\<rparr>,
      \<lparr>MongoDBClient_client = Some 0, driver_calls = 1, created = [0]\<rparr>)"
proof -
  have h1: "MongoDBClient_init mongo_env_example (Some ''sensor'') process_start =
     (Inr \<lparr>client = 0, database = \<lparr>db_client = 0, db_name = ''sensor''\<rparr>,
           database_name = ''sensor''\<rparr>,
      \<lparr>MongoDBClient_client = Some 0, driver_calls = 1, created = [0]\<rparr>)"
    by (simp add: mongo_env_example_def process_start_def MongoDBClient_init_def
        pymongo_MongoClient_def getitem_client_def Let_def)
  obtain r p2 where h2: "MongoDBClient_init mongo_env_example (Some ''audit'')
       \<lparr>MongoDBClient_client = Some 0, driver_calls = 1, created = [0]\<rparr> = (r, p2)"
    by (cases "MongoDBClient_init mongo_env_example (Some ''audit'')
       \<lparr>MongoDBClient_client = Some 0, driver_calls = 1, created = [0]\<rparr>")
  have r: "r = Inr \<lparr>client = 0, database = \<lparr>db_client = 0, db_name = ''audit''\<rparr>,
           database_name = ''audit''\<rparr>"
    using h2 by (simp add: mongo_env_example_def MongoDBClient_init_def getitem_client_def Let_def)
  from second_construction_reuses_client [OF h1 h2] have "p2 = \<lparr>MongoDBClient_client = Some 0, driver_calls = 1, created = [0]\<rparr>"
    by simp
  then show ?thesis using h1 h2 r by simp
qed

section \<open>Reasoning about a run\<close>

subsection \<open>One step at a time\<close>

lemma and_then_logging_info:
  "and_then (logging_info m) f w = f () (w\<lparr>log := log w @ [m]\<rparr>)"
  by (simp add: and_then_def logging_info_def)

lemma and_then_return_value: "and_then (return_value a) f w = f a w"
  by (simp add: and_then_def return_value_def)

lemma and_then_lift:
  "and_then (lift r) f w = (case r of Inl e \<Rightarrow> (Inl e, w) | Inr a \<Rightarrow> f a w)"
  by (simp add: and_then_def lift_def split: sum.splits)

lemma and_then_read_data:
  "and_then (read_data p) f w =
     (case files w p of
        None \<Rightarrow> (Inl (SensorException (FileNotFoundError p)), w)
      | Some (CsvFile df) \<Rightarrow> f df w
      | Some _ \<Rightarrow> (Inl (SensorException (ParserError p)), w))"
  by (simp add: and_then_def read_data_def try_except_def read_csv_def raise_def
      split: option.splits content.splits)

lemma and_then_save_numpy_array_data:
  "and_then (save_numpy_array_data env p a) f w =
     (if can_write env p then f () (w\<lparr>files := (files w)(p \<mapsto> NpyFile a)\<rparr>)
      else (Inl (IOError p), w))"
  by (simp add: and_then_def save_numpy_array_data_def)

lemma and_then_save_object:
  "and_then (save_object env p a) f w =
     (if can_write env p then f () (w\<lparr>files := (files w)(p \<mapsto> PklFile a)\<rparr>)
      else (Inl (IOError p), w))"
  by (simp add: and_then_def save_object_def)

lemmas and_then_steps = and_then_logging_info and_then_return_value and_then_lift
  and_then_read_data and_then_save_numpy_array_data and_then_save_object

lemma body_success:
  assumes "initiate_data_transformation_body env self w = (Inr art, w')"
  shows "\<exists>train_df test_df Xtr Xte ytr yte p Ttr Tte Btr ltr Bte lte Atr Ate.
     files w (valid_train_file_path (data_validation_artifact self)) = Some (CsvFile train_df) \<and>
     files w (valid_test_file_path (data_validation_artifact self)) = Some (CsvFile test_df) \<and>
     drop_columns (TARGET_COLUMN env) train_df = Inr Xtr \<and>
     getitem_column (TARGET_COLUMN env) train_df = Inr ytr \<and>
     drop_columns (TARGET_COLUMN env) test_df = Inr Xte \<and>
     getitem_column (TARGET_COLUMN env) test_df = Inr yte \<and>
     pipeline_fit env \<lparr>Imputer = \<lparr>fill_value = 0\<rparr>, RobustScaler = None\<rparr> (rows Xtr) = Inr p \<and>
     pipeline_transform env p (rows Xtr) = Inr Ttr \<and>
     pipeline_transform env p (rows Xte) = Inr Tte \<and>
     fit_resample env 0 Ttr (replace_dict (TargetValueMapping_to_dict env) ytr) = Inr (Btr, ltr) \<and>
     fit_resample env 1 Tte (replace_dict (TargetValueMapping_to_dict env) yte) = Inr (Bte, lte) \<and>
     np_c Btr ltr = Inr Atr \<and>
     np_c Bte lte = Inr Ate \<and>
     can_write env (DataTransformationConfig.transformed_train_file_path (data_transformation_config self)) \<and>
     can_write env (DataTransformationConfig.transformed_test_file_path (data_transformation_config self)) \<and>
     can_write env (DataTransformationConfig.transformed_object_file_path (data_transformation_config self)) \<and>
     files w' = (files w)
        (DataTransformationConfig.transformed_train_file_path (data_transformation_config self) \<mapsto> NpyFile Atr,
         DataTransformationConfig.transformed_test_file_path (data_transformation_config self) \<mapsto> NpyFile Ate,
         DataTransformationConfig.transformed_object_file_path (data_transformation_config self) \<mapsto> PklFile p) \<and>
     art = \<lparr>transformed_object_file_path =
              DataTransformationConfig.transformed_object_file_path (data_transformation_config self),
            transformed_train_file_path =
              DataTransformationConfig.transformed_train_file_path (data_transformation_config self),
            transformed_test_file_path =
              DataTransformationConfig.transformed_test_file_path (data_transformation_config self)\<rparr>"
  using assms unfolding initiate_data_transformation_body_def get_data_transformer_object_def Let_def
  by (auto simp: and_then_steps return_value_def split: sum.splits option.splits content.splits if_splits prod.splits)



lemma run_returns:
  "initiate_data_transformation env self w = (Inr art, w') \<longleftrightarrow>
   initiate_data_transformation_body env self w = (Inr art, w')"
  by (auto simp: initiate_data_transformation_def try_except_def raise_def
      split: prod.splits sum.splits)

lemma run_raises:
  "initiate_data_transformation env self w = (Inl e, w') \<longleftrightarrow>
   (\<exists>c. e = SensorException c \<and> initiate_data_transformation_body env self w = (Inl c, w'))"
  by (auto simp: initiate_data_transformation_def try_except_def raise_def
      split: prod.splits sum.splits)

lemma replace_dict_nth:
  "i < length ys \<Longrightarrow> replace_dict d ys ! i = replace_value d (ys ! i)"
  by (simp add: replace_dict_def)

subsection \<open>Exceptions of a run\<close>











lemma get_data_transformer_object_raises:
  "get_data_transformer_object = Inl e \<Longrightarrow> P"
  by (simp add: get_data_transformer_object_def)














subsection \<open>The log of a run\<close>














subsection \<open>Concrete runs\<close>

lemmas example_defs = env_example_def self_example_def world_example_def table_example_def
  example_features_def world_without_test_def world_unmapped_def
  initiate_data_transformation_def initiate_data_transformation_body_def try_except_def
  and_then_def logging_info_def read_data_def read_csv_def raise_def lift_def return_value_def
  get_data_transformer_object_def drop_columns_def getitem_column_def replace_dict_def
  replace_value_def pipeline_fit_def pipeline_transform_def imputer_transform_def
  impute_value_def np_c_def save_numpy_array_data_def save_object_def

lemma example_run_returns:
  "fst (initiate_data_transformation env_example self_example world_example) =
     Inr \<lparr>transformed_object_file_path = ''preprocessing.pkl'',
          transformed_train_file_path = ''train.npy'',
          transformed_test_file_path = ''test.npy''\<rparr>"
  by (simp add: example_defs)

lemma example_run_raises:
  "initiate_data_transformation env_example self_example world_without_test =
     (Inl (SensorException (SensorException (FileNotFoundError ''test.csv''))),
      world_without_test\<lparr>log := [''Data transformation Started '']\<rparr>)"
  by (simp add: example_defs)

lemma example_other_test_run_returns:
  "fst (initiate_data_transformation env_example self_example world_other_test) =
     Inr \<lparr>transformed_object_file_path = ''preprocessing.pkl'',
          transformed_train_file_path = ''train.npy'',
          transformed_test_file_path = ''test.npy''\<rparr> \<and>
   files (snd (initiate_data_transformation env_example self_example world_other_test)) ''test.npy'' =
     Some (NpyFile [[Num (1 / 5), Num 0], [Num 0, Num 1]])"
  by (simp add: example_defs world_other_test_def)

subsection \<open>When a run returns\<close>

lemma body_returns_when_every_step_succeeds:
  assumes "every_step_succeeds env self w"
  shows "\<exists>w'. initiate_data_transformation_body env self w =
           (Inr (artifact_of_config (data_transformation_config self)), w')"
  using assms
  unfolding every_step_succeeds_def initiate_data_transformation_body_def
    get_data_transformer_object_def Let_def artifact_of_config_def
  by (auto simp: and_then_steps return_value_def)

lemma every_step_succeeds_when_body_returns:
  assumes "initiate_data_transformation_body env self w = (Inr art, w')"
  shows "every_step_succeeds env self w"
  using body_success [OF assms] unfolding every_step_succeeds_def by blast

subsection \<open>The imputer\<close>

lemma imputer_transform_no_missing:
  "no_missing X \<Longrightarrow> imputer_transform imp X = X"
proof -
  assume nm: "no_missing X"
  have "map (impute_value (fill_value imp)) r = r" if "r \<in> set X" for r
  proof -
    have "impute_value (fill_value imp) v = v" if "v \<in> set r" for v
      using nm \<open>r \<in> set X\<close> that by (cases v) (auto simp: no_missing_def impute_value_def)
    then show ?thesis by (simp add: map_idI)
  qed
  then show ?thesis by (simp add: imputer_transform_def map_idI)
qed

subsection \<open>The label step and the steps before balancing\<close>

lemma replace_dict_at:
  assumes "i < length ys"
  shows "replace_dict d ys ! i =
           (case ys ! i of
              Str s \<Rightarrow> (if s \<in> fst ` set d then Num (the (map_of d s)) else Str s)
            | v \<Rightarrow> v)"
proof -
  have "replace_value d v =
          (case v of
             Str s \<Rightarrow> (if s \<in> fst ` set d then Num (the (map_of d s)) else Str s)
           | v \<Rightarrow> v)" for v
  proof (cases v)
    case (Str s)
    show ?thesis
    proof (cases "s \<in> fst ` set d")
      case True
      then obtain code where "map_of d s = Some code"
        by (metis map_of_eq_None_iff not_Some_eq)
      with Str True show ?thesis by (simp add: replace_value_def)
    next
      case False
      then have "map_of d s = None" by (simp add: map_of_eq_None_iff)
      with Str False show ?thesis by (simp add: replace_value_def)
    qed
  qed (simp_all add: replace_value_def)
  with assms show ?thesis by (simp add: replace_dict_nth)
qed

lemma pipeline_fit_scaler:
  assumes "pipeline_fit env p0 X = Inr p"
  shows "\<exists>s. scaler_fit env (imputer_transform (Imputer p0) X) = Inr s \<and>
             p = p0\<lparr>RobustScaler := Some s\<rparr>"
  using assms unfolding pipeline_fit_def by (auto split: sum.splits)

lemma run_fst:
  "fst (initiate_data_transformation env self w) =
     (case fst (initiate_data_transformation_body env self w) of
        Inl e \<Rightarrow> Inl (SensorException e) | Inr a \<Rightarrow> Inr a)"
  by (simp add: initiate_data_transformation_def try_except_def raise_def
      split: prod.splits sum.splits)

lemma run_snd:
  "snd (initiate_data_transformation env self w) = snd (initiate_data_transformation_body env self w)"
  by (simp add: initiate_data_transformation_def try_except_def raise_def
      split: prod.splits sum.splits)

lemma body_up_to_balancing:
  assumes train: "files w (valid_train_file_path (data_validation_artifact self)) = Some (CsvFile train_df)"
      and test: "files w (valid_test_file_path (data_validation_artifact self)) = Some (CsvFile test_df)"
      and Xtr: "drop_columns (TARGET_COLUMN env) train_df = Inr Xtr"
      and ytr: "getitem_column (TARGET_COLUMN env) train_df = Inr ytr"
      and Xte: "drop_columns (TARGET_COLUMN env) test_df = Inr Xte"
      and yte: "getitem_column (TARGET_COLUMN env) test_df = Inr yte"
      and fit: "pipeline_fit env \<lparr>Imputer = \<lparr>fill_value = 0\<rparr>, RobustScaler = None\<rparr> (rows Xtr) = Inr p"
      and Ttr: "pipeline_transform env p (rows Xtr) = Inr Ttr"
      and Tte: "pipeline_transform env p (rows Xte) = Inr Tte"
  shows "fit_resample env 0 Ttr (replace_dict (TargetValueMapping_to_dict env) ytr) = Inl e \<Longrightarrow>
           fst (initiate_data_transformation_body env self w) = Inl e"
    and "fit_resample env 0 Ttr (replace_dict (TargetValueMapping_to_dict env) ytr) = Inr (Btr, ltr) \<Longrightarrow>
         fit_resample env 1 Tte (replace_dict (TargetValueMapping_to_dict env) yte) = Inr (Bte, lte) \<Longrightarrow>
         np_c Btr ltr = Inr Atr \<Longrightarrow> np_c Bte lte = Inr Ate \<Longrightarrow>
         can_write env (DataTransformationConfig.transformed_train_file_path (data_transformation_config self)) \<Longrightarrow>
         can_write env (DataTransformationConfig.transformed_test_file_path (data_transformation_config self)) \<Longrightarrow>
         can_write env (DataTransformationConfig.transformed_object_file_path (data_transformation_config self)) \<Longrightarrow>
           fst (initiate_data_transformation_body env self w) =
             Inr (artifact_of_config (data_transformation_config self)) \<and>
           files (snd (initiate_data_transformation_body env self w)) = (files w)
             (DataTransformationConfig.transformed_train_file_path (data_transformation_config self) \<mapsto> NpyFile Atr,
              DataTransformationConfig.transformed_test_file_path (data_transformation_config self) \<mapsto> NpyFile Ate,
              DataTransformationConfig.transformed_object_file_path (data_transformation_config self) \<mapsto> PklFile p)"
  unfolding initiate_data_transformation_body_def get_data_transformer_object_def Let_def
    artifact_of_config_def
  using assms
  by (simp_all add: and_then_steps return_value_def)

section \<open>The claims about the transformation stage\<close>

text \<open>
  Counterexample to claim C1 as stated.  Both tables of this world carry the labels
  \<open>a\<close> and \<open>b\<close>, neither of which is a key of the dictionary.  The run raises nothing:
  it returns the artifact, and the train array it wrote holds the two labels as text.
\<close>

theorem unmapped_labels_reach_output_counterexample:
  "fst (initiate_data_transformation env_example self_example world_unmapped) =
     Inr \<lparr>transformed_object_file_path = ''preprocessing.pkl'',
          transformed_train_file_path = ''train.npy'',
          transformed_test_file_path = ''test.npy''\<rparr> \<and>
   files (snd (initiate_data_transformation env_example self_example world_unmapped)) ''train.npy'' =
     Some (NpyFile [[Num (- (4 / 5)), Str ''a''], [Num (- (2 / 5)), Str ''a''],
                    [Num (2 / 5), Str ''b''], [Num (4 / 5), Str ''b'']])"
  by (simp add: example_defs)

text \<open>
  Claim C1, amended.  The label step raises nothing.  Whenever both tables can be
  read, both have the label column and the preprocessing steps succeed, whatever the
  labels are, the run goes on to the balancing step and hands it the label vector in
  which every text that is a key of the dictionary has become its code and every
  other value (a text that is no key, a number, a missing value) is unchanged: if the
  balancing step raises on it, the run raises that exception, wrapped; if the
  balancing step and the later steps succeed, the run returns the artifact and has
  written the arrays made of what the balancing step returned.
\<close>

theorem unmapped_labels_pass_to_balancing:
  assumes train: "files w (valid_train_file_path (data_validation_artifact self)) = Some (CsvFile train_df)"
      and test: "files w (valid_test_file_path (data_validation_artifact self)) = Some (CsvFile test_df)"
      and Xtr: "drop_columns (TARGET_COLUMN env) train_df = Inr Xtr"
      and ytr: "getitem_column (TARGET_COLUMN env) train_df = Inr ytr"
      and Xte: "drop_columns (TARGET_COLUMN env) test_df = Inr Xte"
      and yte: "getitem_column (TARGET_COLUMN env) test_df = Inr yte"
      and fit: "pipeline_fit env \<lparr>Imputer = \<lparr>fill_value = 0\<rparr>, RobustScaler = None\<rparr> (rows Xtr) = Inr p"
      and Ttr: "pipeline_transform env p (rows Xtr) = Inr Ttr"
      and Tte: "pipeline_transform env p (rows Xte) = Inr Tte"
  shows "(\<forall>e. fit_resample env 0 Ttr (replace_dict (TargetValueMapping_to_dict env) ytr) = Inl e \<longrightarrow>
            fst (initiate_data_transformation env self w) = Inl (SensorException e)) \<and>
         (\<forall>Btr ltr Bte lte Atr Ate.
            fit_resample env 0 Ttr (replace_dict (TargetValueMapping_to_dict env) ytr) = Inr (Btr, ltr) \<and>
            fit_resample env 1 Tte (replace_dict (TargetValueMapping_to_dict env) yte) = Inr (Bte, lte) \<and>
            np_c Btr ltr = Inr Atr \<and> np_c Bte lte = Inr Ate \<and>
            can_write env (DataTransformationConfig.transformed_train_file_path (data_transformation_config self)) \<and>
            can_write env (DataTransformationConfig.transformed_test_file_path (data_transformation_config self)) \<and>
            can_write env (DataTransformationConfig.transformed_object_file_path (data_transformation_config self)) \<longrightarrow>
            fst (initiate_data_transformation env self w) =
              Inr (artifact_of_config (data_transformation_config self)) \<and>
            files (snd (initiate_data_transformation env self w)) = (files w)
              (DataTransformationConfig.transformed_train_file_path (data_transformation_config self) \<mapsto> NpyFile Atr,
               DataTransformationConfig.transformed_test_file_path (data_transformation_config self) \<mapsto> NpyFile Ate,
               DataTransformationConfig.transformed_object_file_path (data_transformation_config self) \<mapsto> PklFile p)) \<and>
         length (replace_dict (TargetValueMapping_to_dict env) ytr) = length ytr \<and>
         (\<forall>i < length ytr.
            replace_dict (TargetValueMapping_to_dict env) ytr ! i =
              (case ytr ! i of
                 Str s \<Rightarrow> (if s \<in> fst ` set (TargetValueMapping_to_dict env)
                           then Num (the (map_of (TargetValueMapping_to_dict env) s)) else Str s)
               | v \<Rightarrow> v)) \<and>
         length (replace_dict (TargetValueMapping_to_dict env) yte) = length yte \<and>
         (\<forall>i < length yte.
            replace_dict (TargetValueMapping_to_dict env) yte ! i =
              (case yte ! i of
                 Str s \<Rightarrow> (if s \<in> fst ` set (TargetValueMapping_to_dict env)
                           then Num (the (map_of (TargetValueMapping_to_dict env) s)) else Str s)
               | v \<Rightarrow> v))"
proof (intro conjI allI impI)
  fix e
  assume "fit_resample env 0 Ttr (replace_dict (TargetValueMapping_to_dict env) ytr) = Inl e"
  from body_up_to_balancing(1) [OF assms this]
  show "fst (initiate_data_transformation env self w) = Inl (SensorException e)"
    by (simp add: run_fst)
next
  fix Btr ltr Bte lte Atr Ate
  assume h: "fit_resample env 0 Ttr (replace_dict (TargetValueMapping_to_dict env) ytr) = Inr (Btr, ltr) \<and>
            fit_resample env 1 Tte (replace_dict (TargetValueMapping_to_dict env) yte) = Inr (Bte, lte) \<and>
            np_c Btr ltr = Inr Atr \<and> np_c Bte lte = Inr Ate \<and>
            can_write env (DataTransformationConfig.transformed_train_file_path (data_transformation_config self)) \<and>
            can_write env (DataTransformationConfig.transformed_test_file_path (data_transformation_config self)) \<and>
            can_write env (DataTransformationConfig.transformed_object_file_path (data_transformation_config self))"
  have b: "fst (initiate_data_transformation_body env self w) =
             Inr (artifact_of_config (data_transformation_config self)) \<and>
           files (snd (initiate_data_transformation_body env self w)) = (files w)
             (DataTransformationConfig.transformed_train_file_path (data_transformation_config self) \<mapsto> NpyFile Atr,
              DataTransformationConfig.transformed_test_file_path (data_transformation_config self) \<mapsto> NpyFile Ate,
              DataTransformationConfig.transformed_object_file_path (data_transformation_config self) \<mapsto> PklFile p)"
    using h by (intro body_up_to_balancing(2) [OF assms]) blast+
  from b show "fst (initiate_data_transformation env self w) =
              Inr (artifact_of_config (data_transformation_config self))"
    by (simp add: run_fst)
  from b show "files (snd (initiate_data_transformation env self w)) = (files w)
              (DataTransformationConfig.transformed_train_file_path (data_transformation_config self) \<mapsto> NpyFile Atr,
               DataTransformationConfig.transformed_test_file_path (data_transformation_config self) \<mapsto> NpyFile Ate,
               DataTransformationConfig.transformed_object_file_path (data_transformation_config self) \<mapsto> PklFile p)"
    by (simp add: run_snd)
next
  show "length (replace_dict (TargetValueMapping_to_dict env) ytr) = length ytr"
    by (simp add: replace_dict_def)
next
  fix i assume "i < length ytr"
  then show "replace_dict (TargetValueMapping_to_dict env) ytr ! i =
              (case ytr ! i of
                 Str s \<Rightarrow> (if s \<in> fst ` set (TargetValueMapping_to_dict env)
                           then Num (the (map_of (TargetValueMapping_to_dict env) s)) else Str s)
               | v \<Rightarrow> v)" by (rule replace_dict_at)
next
  show "length (replace_dict (TargetValueMapping_to_dict env) yte) = length yte"
    by (simp add: replace_dict_def)
next
  fix i assume "i < length yte"
  then show "replace_dict (TargetValueMapping_to_dict env) yte ! i =
              (case yte ! i of
                 Str s \<Rightarrow> (if s \<in> fst ` set (TargetValueMapping_to_dict env)
                           then Num (the (map_of (TargetValueMapping_to_dict env) s)) else Str s)
               | v \<Rightarrow> v)" by (rule replace_dict_at)
qed

theorem unmapped_labels_pass_to_balancing_witness:
  "fst (initiate_data_transformation env_example self_example world_unmapped) =
     Inr (artifact_of_config (data_transformation_config self_example)) \<and>
   files (snd (initiate_data_transformation env_example self_example world_unmapped)) ''train.npy'' =
     Some (NpyFile [[Num (- (4 / 5)), Str ''a''], [Num (- (2 / 5)), Str ''a''],
                    [Num (2 / 5), Str ''b''], [Num (4 / 5), Str ''b'']]) \<and>
   replace_dict (TargetValueMapping_to_dict env_example) [Str ''a'', Str ''a'', Str ''b'', Str ''b''] ! 0 =
     Str ''a''"
proof -
  let ?X = "\<lparr>columns = [''sensor_1''], rows = example_features\<rparr>"
  let ?y = "[Str ''a'', Str ''a'', Str ''b'', Str ''b'']"
  let ?p = "\<lparr>Imputer = \<lparr>fill_value = 0\<rparr>, RobustScaler = Some (0 :: real, 5 :: real)\<rparr>"
  let ?T = "[[Num (- (4 / 5))], [Num (- (2 / 5))], [Num (2 / 5)], [Num (4 / 5)]]"
  let ?A = "[[Num (- (4 / 5)), Str ''a''], [Num (- (2 / 5)), Str ''a''],
             [Num (2 / 5), Str ''b''], [Num (4 / 5), Str ''b'']]"
  have p1: "files world_unmapped (valid_train_file_path (data_validation_artifact self_example)) =
              Some (CsvFile (table_example ''a'' ''b''))"
    by (simp add: world_unmapped_def self_example_def)
  have p2: "files world_unmapped (valid_test_file_path (data_validation_artifact self_example)) =
              Some (CsvFile (table_example ''a'' ''b''))"
    by (simp add: world_unmapped_def self_example_def)
  have p3: "drop_columns (TARGET_COLUMN env_example) (table_example ''a'' ''b'') = Inr ?X"
    by (simp add: drop_columns_def env_example_def table_example_def example_features_def)
  have p4: "getitem_column (TARGET_COLUMN env_example) (table_example ''a'' ''b'') = Inr ?y"
    by (simp add: getitem_column_def env_example_def table_example_def)
  have p5: "pipeline_fit env_example \<lparr>Imputer = \<lparr>fill_value = 0\<rparr>, RobustScaler = None\<rparr> (rows ?X) = Inr ?p"
    by (simp add: pipeline_fit_def env_example_def example_features_def imputer_transform_def
        impute_value_def)
  have p6: "pipeline_transform env_example ?p (rows ?X) = Inr ?T"
    by (simp add: pipeline_transform_def env_example_def example_features_def imputer_transform_def
        impute_value_def)
  note t = unmapped_labels_pass_to_balancing [OF p1 p2 p3 p4 p3 p4 p5 p6 p6]
  have c: "fit_resample env_example 0 ?T (replace_dict (TargetValueMapping_to_dict env_example) ?y) =
             Inr (?T, ?y) \<and>
           fit_resample env_example 1 ?T (replace_dict (TargetValueMapping_to_dict env_example) ?y) =
             Inr (?T, ?y) \<and>
           np_c ?T ?y = Inr ?A \<and> np_c ?T ?y = Inr ?A \<and>
           can_write env_example (DataTransformationConfig.transformed_train_file_path (data_transformation_config self_example)) \<and>
           can_write env_example (DataTransformationConfig.transformed_test_file_path (data_transformation_config self_example)) \<and>
           can_write env_example (DataTransformationConfig.transformed_object_file_path (data_transformation_config self_example))"
    by (simp add: env_example_def self_example_def np_c_def replace_dict_def replace_value_def)
  from t [THEN conjunct2, THEN conjunct1, rule_format, OF c]
  have run: "fst (initiate_data_transformation env_example self_example world_unmapped) =
               Inr (artifact_of_config (data_transformation_config self_example))"
    and written: "files (snd (initiate_data_transformation env_example self_example world_unmapped)) ''train.npy'' =
               Some (NpyFile ?A)"
    by (simp_all add: self_example_def)
  have "(0::nat) < length ?y" by simp
  from t [THEN conjunct2, THEN conjunct2, THEN conjunct2, THEN conjunct1, rule_format, OF this]
  have "replace_dict (TargetValueMapping_to_dict env_example) ?y ! 0 = Str ''a''"
    by (simp add: env_example_def)
  with run written show ?thesis by simp
qed

text \<open>
  Claim C2.  Take two successful runs of the same stage in worlds that agree on the
  train file.  The fitted preprocessors they save are equal, whatever the test files
  are.  And in a successful run the statistics \<open>s\<close> of the scaler are fitted once, on the
  imputed train features (the train table without the label column); the saved
  preprocessor holds exactly these statistics; and the train array and the test array
  the run writes are the balanced and concatenated results of applying the scaler
  with these same statistics \<open>s\<close> to the imputed train features and to the imputed test
  features.
\<close>

theorem fitted_state_depends_on_train_features_only:
  assumes run1: "initiate_data_transformation env self w1 = (Inr art1, w1')"
      and run2: "initiate_data_transformation env self w2 = (Inr art2, w2')"
      and same: "files w1 (valid_train_file_path (data_validation_artifact self)) =
                 files w2 (valid_train_file_path (data_validation_artifact self))"
  shows "files w1' (DataTransformationConfig.transformed_object_file_path (data_transformation_config self)) =
         files w2' (DataTransformationConfig.transformed_object_file_path (data_transformation_config self)) \<and>
         (\<exists>train_df test_df Xtr Xte ytr yte s Ttr Tte Btr ltr Bte lte Atr Ate.
            files w1 (valid_train_file_path (data_validation_artifact self)) = Some (CsvFile train_df) \<and>
            files w1 (valid_test_file_path (data_validation_artifact self)) = Some (CsvFile test_df) \<and>
            drop_columns (TARGET_COLUMN env) train_df = Inr Xtr \<and>
            getitem_column (TARGET_COLUMN env) train_df = Inr ytr \<and>
            drop_columns (TARGET_COLUMN env) test_df = Inr Xte \<and>
            getitem_column (TARGET_COLUMN env) test_df = Inr yte \<and>
            scaler_fit env (imputer_transform \<lparr>fill_value = 0\<rparr> (rows Xtr)) = Inr s \<and>
            scaler_transform env s (imputer_transform \<lparr>fill_value = 0\<rparr> (rows Xtr)) = Inr Ttr \<and>
            scaler_transform env s (imputer_transform \<lparr>fill_value = 0\<rparr> (rows Xte)) = Inr Tte \<and>
            fit_resample env 0 Ttr (replace_dict (TargetValueMapping_to_dict env) ytr) = Inr (Btr, ltr) \<and>
            fit_resample env 1 Tte (replace_dict (TargetValueMapping_to_dict env) yte) = Inr (Bte, lte) \<and>
            np_c Btr ltr = Inr Atr \<and>
            np_c Bte lte = Inr Ate \<and>
            files w1' = (files w1)
              (DataTransformationConfig.transformed_train_file_path (data_transformation_config self) \<mapsto> NpyFile Atr,
               DataTransformationConfig.transformed_test_file_path (data_transformation_config self) \<mapsto> NpyFile Ate,
               DataTransformationConfig.transformed_object_file_path (data_transformation_config self) \<mapsto>
                 PklFile \<lparr>Imputer = \<lparr>fill_value = 0\<rparr>, RobustScaler = Some s\<rparr>))"
proof -
  from run1 have b1: "initiate_data_transformation_body env self w1 = (Inr art1, w1')"
    by (simp add: run_returns)
  from run2 have b2: "initiate_data_transformation_body env self w2 = (Inr art2, w2')"
    by (simp add: run_returns)
  from body_success [OF b1] obtain train_df test_df Xtr Xte ytr yte p Ttr Tte Btr ltr Bte lte Atr Ate
    where s1: "files w1 (valid_train_file_path (data_validation_artifact self)) = Some (CsvFile train_df)"
      "files w1 (valid_test_file_path (data_validation_artifact self)) = Some (CsvFile test_df)"
      "drop_columns (TARGET_COLUMN env) train_df = Inr Xtr"
      "getitem_column (TARGET_COLUMN env) train_df = Inr ytr"
      "drop_columns (TARGET_COLUMN env) test_df = Inr Xte"
      "getitem_column (TARGET_COLUMN env) test_df = Inr yte"
      and fit1: "pipeline_fit env \<lparr>Imputer = \<lparr>fill_value = 0\<rparr>, RobustScaler = None\<rparr> (rows Xtr) = Inr p"
      and tr1: "pipeline_transform env p (rows Xtr) = Inr Ttr"
        "pipeline_transform env p (rows Xte) = Inr Tte"
      and rs1: "fit_resample env 0 Ttr (replace_dict (TargetValueMapping_to_dict env) ytr) = Inr (Btr, ltr)"
        "fit_resample env 1 Tte (replace_dict (TargetValueMapping_to_dict env) yte) = Inr (Bte, lte)"
        "np_c Btr ltr = Inr Atr"
        "np_c Bte lte = Inr Ate"
      and f1: "files w1' = (files w1)
        (DataTransformationConfig.transformed_train_file_path (data_transformation_config self) \<mapsto> NpyFile Atr,
         DataTransformationConfig.transformed_test_file_path (data_transformation_config self) \<mapsto> NpyFile Ate,
         DataTransformationConfig.transformed_object_file_path (data_transformation_config self) \<mapsto> PklFile p)"
    by blast
  from body_success [OF b2] obtain train_df2 Xtr2 p2 Atr2 Ate2
    where s2: "files w2 (valid_train_file_path (data_validation_artifact self)) = Some (CsvFile train_df2)"
      "drop_columns (TARGET_COLUMN env) train_df2 = Inr Xtr2"
      "pipeline_fit env \<lparr>Imputer = \<lparr>fill_value = 0\<rparr>, RobustScaler = None\<rparr> (rows Xtr2) = Inr p2"
      and f2: "files w2' = (files w2)
        (DataTransformationConfig.transformed_train_file_path (data_transformation_config self) \<mapsto> NpyFile Atr2,
         DataTransformationConfig.transformed_test_file_path (data_transformation_config self) \<mapsto> NpyFile Ate2,
         DataTransformationConfig.transformed_object_file_path (data_transformation_config self) \<mapsto> PklFile p2)"
    by blast
  from same s1(1) s2(1) have "train_df2 = train_df" by simp
  with s1(3) s2(2) have "Xtr2 = Xtr" by simp
  with fit1 s2(3) have "p2 = p" by simp
  from pipeline_fit_scaler [OF fit1] obtain s where
    sf: "scaler_fit env (imputer_transform \<lparr>fill_value = 0\<rparr> (rows Xtr)) = Inr s"
    and p: "p = \<lparr>Imputer = \<lparr>fill_value = 0\<rparr>, RobustScaler = Some s\<rparr>" by auto
  have st: "scaler_transform env s (imputer_transform \<lparr>fill_value = 0\<rparr> (rows Xtr)) = Inr Ttr"
    "scaler_transform env s (imputer_transform \<lparr>fill_value = 0\<rparr> (rows Xte)) = Inr Tte"
    using tr1 by (simp_all add: pipeline_transform_def p)
  have o1: "files w1' (DataTransformationConfig.transformed_object_file_path (data_transformation_config self)) =
              Some (PklFile p)" by (simp add: f1)
  have o2: "files w2' (DataTransformationConfig.transformed_object_file_path (data_transformation_config self)) =
              Some (PklFile p)" using \<open>p2 = p\<close> by (simp add: f2)
  show ?thesis
  proof (intro conjI)
    show "files w1' (DataTransformationConfig.transformed_object_file_path (data_transformation_config self)) =
          files w2' (DataTransformationConfig.transformed_object_file_path (data_transformation_config self))"
      by (simp only: o1 o2)
  next
    show "\<exists>train_df test_df Xtr Xte ytr yte s Ttr Tte Btr ltr Bte lte Atr Ate.
            files w1 (valid_train_file_path (data_validation_artifact self)) = Some (CsvFile train_df) \<and>
            files w1 (valid_test_file_path (data_validation_artifact self)) = Some (CsvFile test_df) \<and>
            drop_columns (TARGET_COLUMN env) train_df = Inr Xtr \<and>
            getitem_column (TARGET_COLUMN env) train_df = Inr ytr \<and>
            drop_columns (TARGET_COLUMN env) test_df = Inr Xte \<and>
            getitem_column (TARGET_COLUMN env) test_df = Inr yte \<and>
            scaler_fit env (imputer_transform \<lparr>fill_value = 0\<rparr> (rows Xtr)) = Inr s \<and>
            scaler_transform env s (imputer_transform \<lparr>fill_value = 0\<rparr> (rows Xtr)) = Inr Ttr \<and>
            scaler_transform env s (imputer_transform \<lparr>fill_value = 0\<rparr> (rows Xte)) = Inr Tte \<and>
            fit_resample env 0 Ttr (replace_dict (TargetValueMapping_to_dict env) ytr) = Inr (Btr, ltr) \<and>
            fit_resample env 1 Tte (replace_dict (TargetValueMapping_to_dict env) yte) = Inr (Bte, lte) \<and>
            np_c Btr ltr = Inr Atr \<and>
            np_c Bte lte = Inr Ate \<and>
            files w1' = (files w1)
              (DataTransformationConfig.transformed_train_file_path (data_transformation_config self) \<mapsto> NpyFile Atr,
               DataTransformationConfig.transformed_test_file_path (data_transformation_config self) \<mapsto> NpyFile Ate,
               DataTransformationConfig.transformed_object_file_path (data_transformation_config self) \<mapsto>
                 PklFile \<lparr>Imputer = \<lparr>fill_value = 0\<rparr>, RobustScaler = Some s\<rparr>)"
      by (rule exI [of _ train_df], rule exI [of _ test_df], rule exI [of _ Xtr],
          rule exI [of _ Xte], rule exI [of _ ytr], rule exI [of _ yte], rule exI [of _ s],
          rule exI [of _ Ttr], rule exI [of _ Tte], rule exI [of _ Btr], rule exI [of _ ltr],
          rule exI [of _ Bte], rule exI [of _ lte], rule exI [of _ Atr], rule exI [of _ Ate])
         (simp only: s1 sf st rs1 f1 p simp_thms)
  qed
qed

theorem fitted_state_depends_on_train_features_only_witness:
  "files world_example ''train.csv'' = files world_other_test ''train.csv'' \<and>
   files world_example ''test.csv'' \<noteq> files world_other_test ''test.csv'' \<and>
   files (snd (initiate_data_transformation env_example self_example world_example)) ''preprocessing.pkl'' =
   files (snd (initiate_data_transformation env_example self_example world_other_test)) ''preprocessing.pkl'' \<and>
   files (snd (initiate_data_transformation env_example self_example world_other_test)) ''test.npy'' =
     Some (NpyFile [[Num (1 / 5), Num 0], [Num 0, Num 1]])"
proof -
  obtain w1' where r1: "initiate_data_transformation env_example self_example world_example =
      (Inr \<lparr>transformed_object_file_path = ''preprocessing.pkl'',
          transformed_train_file_path = ''train.npy'',
          transformed_test_file_path = ''test.npy''\<rparr>, w1')"
    using example_run_returns
    by (cases "initiate_data_transformation env_example self_example world_example") simp
  obtain w2' where r2: "initiate_data_transformation env_example self_example world_other_test =
      (Inr \<lparr>transformed_object_file_path = ''preprocessing.pkl'',
          transformed_train_file_path = ''train.npy'',
          transformed_test_file_path = ''test.npy''\<rparr>, w2')"
    using example_other_test_run_returns
    by (cases "initiate_data_transformation env_example self_example world_other_test") simp
  have same: "files world_example (valid_train_file_path (data_validation_artifact self_example)) =
              files world_other_test (valid_train_file_path (data_validation_artifact self_example))"
    by (simp add: world_example_def world_other_test_def self_example_def)
  have diff: "files world_example ''test.csv'' \<noteq> files world_other_test ''test.csv''"
    by (simp add: world_example_def world_other_test_def table_example_def)
  from fitted_state_depends_on_train_features_only [OF r1 r2 same, THEN conjunct1] same diff r1 r2
    example_other_test_run_returns
  show ?thesis by (simp add: self_example_def world_example_def world_other_test_def)
qed



text \<open>
  Claim C5.  On a table without missing values the imputer of the pipeline is the
  identity, so fitting the pipeline on the table and transforming it gives what the
  scaler alone gives, and a pipeline fitted on any table transforms it as its fitted
  scaler alone does.
\<close>

theorem imputation_is_identity_without_missing_values:
  assumes "no_missing X" and "get_data_transformer_object = Inr p"
  shows "imputer_transform (Imputer p) X = X \<and>
         pipeline_fit_transform env p X X = scaler_fit_transform env X X \<and>
         (\<forall>fitted X_fit. pipeline_fit env p X_fit = Inr fitted \<longrightarrow>
            (\<exists>s. RobustScaler fitted = Some s \<and>
                 pipeline_transform env fitted X = scaler_transform env s X))"
proof -
  have id: "imputer_transform imp X = X" for imp
    using assms(1) by (rule imputer_transform_no_missing)
  have ft: "pipeline_fit_transform env p X X = scaler_fit_transform env X X"
    by (simp add: pipeline_fit_transform_def scaler_fit_transform_def pipeline_fit_def
        pipeline_transform_def id split: sum.splits)
  have tr: "\<exists>s. RobustScaler fitted = Some s \<and>
                pipeline_transform env fitted X = scaler_transform env s X"
    if "pipeline_fit env p X_fit = Inr fitted" for fitted X_fit
    using that by (auto simp: pipeline_fit_def pipeline_transform_def id split: sum.splits)
  show ?thesis using id ft tr by blast
qed

theorem imputation_is_identity_without_missing_values_witness:
  "no_missing example_features \<and>
   pipeline_fit_transform env_example \<lparr>Imputer = \<lparr>fill_value = 0\<rparr>, RobustScaler = None\<rparr>
       example_features example_features =
     scaler_fit_transform env_example example_features example_features \<and>
   scaler_fit_transform env_example example_features example_features =
     Inr [[Num (- (4 / 5))], [Num (- (2 / 5))], [Num (2 / 5)], [Num (4 / 5)]]"
proof -
  have nm: "no_missing example_features"
    by (simp add: no_missing_def example_features_def)
  have p: "get_data_transformer_object =
             Inr \<lparr>Imputer = \<lparr>fill_value = 0\<rparr>, RobustScaler = (None :: (real \<times> real) option)\<rparr>"
    by (simp add: get_data_transformer_object_def)
  have v: "scaler_fit_transform env_example example_features example_features =
     Inr [[Num (- (4 / 5))], [Num (- (2 / 5))], [Num (2 / 5)], [Num (4 / 5)]]"
    by (simp add: scaler_fit_transform_def env_example_def example_features_def)
  from imputation_is_identity_without_missing_values [OF nm p, of env_example] nm v
  show ?thesis by simp
qed

text \<open>
  Claim C7.  A run returns an artifact exactly when every one of its operations
  succeeds; when one of them fails, the caller gets a \<open>SensorException\<close> and no
  artifact.
\<close>

theorem artifact_only_when_every_step_succeeds:
  assumes "initiate_data_transformation env self w = (r, w')"
  shows "((\<exists>art. r = Inr art) \<longleftrightarrow> every_step_succeeds env self w) \<and>
         (\<not> every_step_succeeds env self w \<longrightarrow> (\<exists>c. r = Inl (SensorException c)))"
proof -
  have a: "every_step_succeeds env self w" if "r = Inr art" for art
    using assms that every_step_succeeds_when_body_returns by (simp add: run_returns)
  have b: "\<exists>art. r = Inr art" if "every_step_succeeds env self w"
  proof -
    from body_returns_when_every_step_succeeds [OF that] obtain w1 where
      "initiate_data_transformation_body env self w =
         (Inr (artifact_of_config (data_transformation_config self)), w1)" by blast
    then have "initiate_data_transformation env self w =
         (Inr (artifact_of_config (data_transformation_config self)), w1)"
      by (simp add: run_returns)
    with assms show ?thesis by auto
  qed
  have c: "\<exists>c. r = Inl (SensorException c)" if "\<not> every_step_succeeds env self w"
  proof (cases r)
    case (Inl e)
    with assms show ?thesis by (auto simp: run_raises)
  next
    case (Inr art)
    with a that show ?thesis by blast
  qed
  show ?thesis using a b c by blast
qed

theorem artifact_only_when_every_step_succeeds_witness:
  "initiate_data_transformation env_example self_example world_without_test =
     (Inl (SensorException (SensorException (FileNotFoundError ''test.csv''))),
      world_without_test\<lparr>log := [''Data transformation Started '']\<rparr>) \<and>
   \<not> every_step_succeeds env_example self_example world_without_test"
  using artifact_only_when_every_step_succeeds [OF example_run_raises] example_run_raises
  by simp

text \<open>
  Claim C8.  The value a successful run returns is the artifact record whose three
  paths are the three output paths of the configuration.
\<close>

theorem successful_run_returns_configured_paths:
  assumes "initiate_data_transformation env self w = (Inr art, w')"
  shows "art = artifact_of_config (data_transformation_config self) \<and>
         DataTransformationArtifact.transformed_object_file_path art =
           DataTransformationConfig.transformed_object_file_path (data_transformation_config self) \<and>
         DataTransformationArtifact.transformed_train_file_path art =
           DataTransformationConfig.transformed_train_file_path (data_transformation_config self) \<and>
         DataTransformationArtifact.transformed_test_file_path art =
           DataTransformationConfig.transformed_test_file_path (data_transformation_config self)"
proof -
  from assms have "initiate_data_transformation_body env self w = (Inr art, w')"
    by (simp add: run_returns)
  from body_success [OF this] show ?thesis by (auto simp: artifact_of_config_def)
qed

theorem successful_run_returns_configured_paths_witness:
  "fst (initiate_data_transformation env_example self_example world_example) =
     Inr (artifact_of_config (data_transformation_config self_example)) \<and>
   artifact_of_config (data_transformation_config self_example) =
     \<lparr>transformed_object_file_path = ''preprocessing.pkl'',
      transformed_train_file_path = ''train.npy'',
      transformed_test_file_path = ''test.npy''\<rparr>"
proof -
  obtain r w' where run: "initiate_data_transformation env_example self_example world_example = (r, w')"
    by (cases "initiate_data_transformation env_example self_example world_example")
  with example_run_returns have r: "r = Inr \<lparr>transformed_object_file_path = ''preprocessing.pkl'',
          transformed_train_file_path = ''train.npy'',
          transformed_test_file_path = ''test.npy''\<rparr>" by simp
  from successful_run_returns_configured_paths [OF run [unfolded r]] run r
  show ?thesis by (simp add: artifact_of_config_def self_example_def)
qed

end
